theory Spec2Isabelle
  imports Complex_Main "HOL-Library.Char_ord" "HOL-Library.List_Lexorder"
begin

section \<open>FinNet settlement engine: data model\<close>

text \<open>
  The engine works on pandas data frames. A row of the trade ledger is a record with the
  columns that \<open>MarketSimulator.generate_trades\<close> creates. Monetary amounts are 64-bit
  floats in the program; they are modelled as exact rationals, so rounding is not part of
  this development, and only properties that do not depend on how a float sum or
  difference is rounded are stated about the amounts. The one float operation whose
  special cases matter to the settlement report, the division by the gross volume, is
  modelled with its non-finite results.
\<close>

record trade =
  Trade_ID :: string
  Buyer :: string
  Seller :: string
  Symbol :: string
  Quantity :: int
  Price :: rat
  Timestamp :: nat
  Total_Value :: rat

text \<open>
  The ledger frame: its rows, and the column \<open>Anomaly_Score\<close> that
  \<open>RiskEngine.detect_anomalies\<close> adds (\<open>None\<close> while the frame has no such column,
  otherwise one score per row; \<open>1\<close> is normal and \<open>-1\<close> is anomalous).
\<close>

record dataframe =
  rows :: "trade list"
  Anomaly_Score :: "int list option"

text \<open>A row of the frame \<open>net_df\<close> that \<open>NettingEngine.run_netting\<close> returns.\<close>

record net_row =
  Entity :: string
  To_Pay :: rat
  To_Receive :: rat
  Net_Position :: rat
  Status :: string

text \<open>The exceptions that pandas raises in the modelled code, and a failure of the outlier model.\<close>

datatype error = KeyError | ValueError | ModelError

text \<open>
  The result of a float division: numpy scalars do not raise on a zero divisor, they
  give \<open>nan\<close> or an infinity.
\<close>

datatype float = Finite rat | NaN | PosInf | NegInf

definition float_div :: "rat \<Rightarrow> rat \<Rightarrow> float" where
  "float_div x y =
     (if y \<noteq> 0 then Finite (x / y)
      else if x = 0 then NaN
      else if 0 < x then PosInf else NegInf)"

definition float_mult :: "float \<Rightarrow> rat \<Rightarrow> float" where
  "float_mult f c =
     (case f of
        Finite x \<Rightarrow> Finite (x * c)
      | NaN \<Rightarrow> NaN
      | PosInf \<Rightarrow> (if c = 0 then NaN else if 0 < c then PosInf else NegInf)
      | NegInf \<Rightarrow> (if c = 0 then NaN else if 0 < c then NegInf else PosInf))"

section \<open>The netting engine\<close>

text \<open>\<open>df[df['Anomaly_Score'] == 1]\<close>: the rows whose score is \<open>1\<close>, in ledger order.\<close>

definition valid_trades :: "trade list \<Rightarrow> int list \<Rightarrow> trade list" where
  "valid_trades ts scores = map fst (filter (\<lambda>(t, s). s = 1) (zip ts scores))"

text \<open>
  \<open>groupby(key)['Total_Value'].sum().reset_index()\<close>: one row per distinct key, in
  ascending key order (strings compare lexicographically, character by character), with
  the sum of \<open>Total_Value\<close> over the rows of that key.
\<close>

definition groupby_sum :: "(trade \<Rightarrow> string) \<Rightarrow> trade list \<Rightarrow> (string \<times> rat) list" where
  "groupby_sum key ts =
     map (\<lambda>k. (k, sum_list (map Total_Value (filter (\<lambda>t. key t = k) ts))))
       (sort (remdups (map key ts)))"

text \<open>
  \<open>pd.merge(l, r, on='Entity', how='outer')\<close> for two frames in which every entity
  occurs at most once (as in the output of \<open>groupby_sum\<close>): one row per entity of either
  frame, keys in lexicographic order, a missing side left empty.
\<close>

definition merge_outer ::
  "(string \<times> rat) list \<Rightarrow> (string \<times> rat) list \<Rightarrow> (string \<times> rat option \<times> rat option) list" where
  "merge_outer l r =
     map (\<lambda>k. (k, map_of l k, map_of r k)) (sort (remdups (map fst l @ map fst r)))"

text \<open>\<open>.fillna(0)\<close> on the merged frame.\<close>

definition fillna :: "rat option \<Rightarrow> rat" where
  "fillna v = (case v of None \<Rightarrow> 0 | Some x \<Rightarrow> x)"

text \<open>The two derived columns \<open>Net_Position\<close> and \<open>Status\<close> of one merged row.\<close>

definition net_position_row :: "string \<times> rat option \<times> rat option \<Rightarrow> net_row" where
  "net_position_row m =
     (case m of (e, p, r) \<Rightarrow>
        \<lparr>Entity = e, To_Pay = fillna p, To_Receive = fillna r,
         Net_Position = fillna r - fillna p,
         Status = (if fillna r - fillna p < 0 then ''PAY TO DTCC'' else ''RECEIVE FROM DTCC'')\<rparr>)"

text \<open>
  \<open>NettingEngine.run_netting\<close>. It returns the tuple
  \<open>(net_df, savings, gross_volume, net_volume)\<close>; reading the score column of a frame
  that has none raises \<open>KeyError\<close>. Nothing else in the method raises.
\<close>

definition run_netting :: "dataframe \<Rightarrow> error + (net_row list \<times> float \<times> rat \<times> rat)" where
  "run_netting df =
     (case Anomaly_Score df of
        None \<Rightarrow> Inl KeyError
      | Some scores \<Rightarrow>
          (let valid = valid_trades (rows df) scores;
               pay_obligations = groupby_sum Buyer valid;
               receive_obligations = groupby_sum Seller valid;
               net_df = map net_position_row (merge_outer pay_obligations receive_obligations);
               gross_volume = sum_list (map Total_Value valid);
               net_volume = sum_list (map (\<lambda>r. \<bar>Net_Position r\<bar>) net_df) / 2;
               savings = float_mult (float_div (gross_volume - net_volume) gross_volume) 100
           in Inr (net_df, savings, gross_volume, net_volume)))"

section \<open>The risk engine\<close>

text \<open>
  The outlier model is scikit-learn's \<open>IsolationForest\<close>, which is not part of the
  program: \<open>fit_predict\<close> is taken as a parameter that receives the contamination, the
  random seed and the feature rows, and either fails or returns the labels.
\<close>

type_synonym outlier_model = "rat \<Rightarrow> nat \<Rightarrow> (int \<times> rat) list \<Rightarrow> error + int list"

text \<open>
  The state that \<open>detect_anomalies\<close> runs in: the module-level variable
  \<open>risk_threshold\<close> (the value of the sidebar slider) and the data frames, addressed by
  reference, since the method assigns a column of the frame it is given.
\<close>

record session =
  risk_threshold :: rat
  frames :: "nat \<Rightarrow> dataframe"

text \<open>
  \<open>RiskEngine.detect_anomalies\<close>. The model is built with
  \<open>contamination=risk_threshold\<close> and \<open>random_state=42\<close> and fitted on the columns
  \<open>Quantity\<close> and \<open>Total_Value\<close>; the labels are stored in the column
  \<open>Anomaly_Score\<close> of the argument frame itself (pandas raises \<open>ValueError\<close> when their
  number is not the number of rows), and the same frame is returned.
\<close>

definition detect_anomalies :: "outlier_model \<Rightarrow> nat \<Rightarrow> session \<Rightarrow> (error + nat) \<times> session" where
  "detect_anomalies fit_predict df s =
     (case fit_predict (risk_threshold s) 42
             (map (\<lambda>t. (Quantity t, Total_Value t)) (rows (frames s df))) of
        Inl e \<Rightarrow> (Inl e, s)
      | Inr labels \<Rightarrow>
          if length labels \<noteq> length (rows (frames s df)) then (Inl ValueError, s)
          else (Inr df,
                s\<lparr>frames := (frames s)(df := (frames s df)\<lparr>Anomaly_Score := Some labels\<rparr>)\<rparr>))"





section \<open>Closed forms and example data\<close>

text \<open>
  The spec's wording of an entity's obligations: the sum of \<open>Total_Value\<close> over the
  trades in which the entity is the buyer (\<open>key = Buyer\<close>) or the seller
  (\<open>key = Seller\<close>).
\<close>

definition total_where :: "(trade \<Rightarrow> string) \<Rightarrow> string \<Rightarrow> trade list \<Rightarrow> rat" where
  "total_where key k ts = sum_list (map Total_Value (filter (\<lambda>t. key t = k) ts))"

text \<open>The row that the netting engine is shown to compute for entity \<open>k\<close>.\<close>

definition entity_row :: "trade list \<Rightarrow> string \<Rightarrow> net_row" where
  "entity_row v k =
     \<lparr>Entity = k, To_Pay = total_where Buyer k v, To_Receive = total_where Seller k v,
      Net_Position = total_where Seller k v - total_where Buyer k v,
      Status = (if total_where Seller k v - total_where Buyer k v < 0
                then ''PAY TO DTCC'' else ''RECEIVE FROM DTCC'')\<rparr>"

text \<open>The key column of the merged frame, as the group-by and the merge produce it.\<close>

definition entity_keys :: "trade list \<Rightarrow> string list" where
  "entity_keys v = sort (remdups (sort (remdups (map Buyer v)) @ sort (remdups (map Seller v))))"

text \<open>
  Example data. A ledger row with the given buyer, seller and total value (ten units at a
  tenth of the value each).
\<close>

definition example_trade :: "string \<Rightarrow> string \<Rightarrow> rat \<Rightarrow> trade" where
  "example_trade b s v =
     \<lparr>Trade_ID = ''TRX-10000'', Buyer = b, Seller = s, Symbol = ''AAPL'', Quantity = 10,
      Price = v / 10, Timestamp = 0, Total_Value = v\<rparr>"

text \<open>Citi buys 100 from JPMorgan and JPMorgan buys 100 from Citi, both trades normal.\<close>

definition round_trip_ledger :: dataframe where
  "round_trip_ledger =
     \<lparr>rows = [example_trade ''Citi'' ''JPMorgan'' 100, example_trade ''JPMorgan'' ''Citi'' 100],
      Anomaly_Score = Some [1, 1]\<rparr>"

text \<open>A normal trade of 50 and an anomalous one of 7000.\<close>

definition mixed_ledger :: dataframe where
  "mixed_ledger =
     \<lparr>rows = [example_trade ''Citi'' ''JPMorgan'' 50, example_trade ''BlackRock'' ''Citi'' 7000],
      Anomaly_Score = Some [1, - 1]\<rparr>"

text \<open>A ledger whose only trade is labelled anomalous.\<close>

definition anomalous_ledger :: dataframe where
  "anomalous_ledger =
     \<lparr>rows = [example_trade ''Citi'' ''JPMorgan'' 7000], Anomaly_Score = Some [- 1]\<rparr>"

text \<open>A ledger whose only trade is normal and has the total value zero (its price is zero).\<close>

definition zero_value_ledger :: dataframe where
  "zero_value_ledger =
     \<lparr>rows = [example_trade ''Citi'' ''JPMorgan'' 0], Anomaly_Score = Some [1]\<rparr>"

text \<open>A store whose frames all hold one ledger row and no score column yet.\<close>

definition unscored_frames :: "nat \<Rightarrow> dataframe" where
  "unscored_frames r = \<lparr>rows = [example_trade ''Citi'' ''JPMorgan'' 50], Anomaly_Score = None\<rparr>"

text \<open>
  An instance of the model interface for the examples. It accepts the contamination
  range that scikit-learn documents for \<open>IsolationForest\<close>, the half-open interval
  from 0 (excluded) to 0.5 (included), rejects an empty sample, and labels every row
  normal.
\<close>

definition label_all_normal :: outlier_model where
  "label_all_normal contamination random_state X =
     (if 0 < contamination \<and> contamination \<le> 1 / 2 \<and> X \<noteq> []
      then Inr (replicate (length X) 1) else Inl ModelError)"



section \<open>Group-by sums and the merged frame\<close>

lemma map_of_groupby_sum:
  "map_of (groupby_sum key ts) k =
     (if k \<in> key ` set ts
      then Some (sum_list (map Total_Value (filter (\<lambda>t. key t = k) ts))) else None)"
  by (simp add: groupby_sum_def map_of_map_restrict restrict_map_def)

lemma filter_key_empty: "k \<notin> key ` set ts \<Longrightarrow> filter (\<lambda>t. key t = k) ts = []"
  by (induction ts) auto

lemma fillna_groupby_sum:
  "fillna (map_of (groupby_sum key ts) k) =
     sum_list (map Total_Value (filter (\<lambda>t. key t = k) ts))"
  by (simp add: map_of_groupby_sum fillna_def filter_key_empty)

lemma fst_groupby_sum: "map fst (groupby_sum key ts) = sort (remdups (map key ts))"
  by (simp add: groupby_sum_def comp_def)

text \<open>Summing the per-key sums over a duplicate-free key list that covers every key gives the total.\<close>

lemma sum_list_groups:
  "distinct ks \<Longrightarrow> key ` set ts \<subseteq> set ks \<Longrightarrow>
   (\<Sum>k\<leftarrow>ks. sum_list (map f (filter (\<lambda>t. key t = k) ts))) = sum_list (map (f::'a \<Rightarrow> rat) ts)"
proof (induction ts)
  case Nil
  then show ?case by simp
next
  case (Cons t ts)
  let ?S = "\<lambda>k. sum_list (map f (filter (\<lambda>t. key t = k) ts))"
  have mem: "key t \<in> set ks" using Cons.prems by simp
  have "(\<Sum>k\<leftarrow>ks. sum_list (map f (filter (\<lambda>u. key u = k) (t # ts))))
        = (\<Sum>k\<leftarrow>ks. (if key t = k then f t else 0) + ?S k)"
    by (rule arg_cong [where f = sum_list]) (rule map_cong, auto)
  also have "\<dots> = (\<Sum>k\<leftarrow>ks. (if key t = k then f t else 0)) + (\<Sum>k\<leftarrow>ks. ?S k)"
    by (simp add: sum_list_addf)
  also have "(\<Sum>k\<leftarrow>ks. (if key t = k then f t else 0)) = f t"
    using Cons.prems(1) mem by (simp add: sum_list_distinct_conv_sum_set)
  also have "(\<Sum>k\<leftarrow>ks. ?S k) = sum_list (map f ts)"
    using Cons by simp
  finally show ?case by simp
qed

lemma net_rows_eq:
  "map net_position_row (merge_outer (groupby_sum Buyer v) (groupby_sum Seller v))
     = map (entity_row v) (entity_keys v)"
  by (simp add: merge_outer_def net_position_row_def fillna_groupby_sum fst_groupby_sum
      entity_row_def entity_keys_def total_where_def)

lemma set_entity_keys: "set (entity_keys v) = Buyer ` set v \<union> Seller ` set v"
  by (simp add: entity_keys_def)

lemma distinct_entity_keys: "distinct (entity_keys v)"
  by (simp add: entity_keys_def)

lemma sorted_entity_keys: "sorted (entity_keys v)"
  by (simp add: entity_keys_def)

lemma entity_of_rows: "map Entity (map (entity_row v) ks) = ks"
  by (simp add: comp_def entity_row_def)

text \<open>On a frame that has the score column, the method returns, and this is what it returns.\<close>

lemma run_netting_labelled:
  "Anomaly_Score df = Some scores \<Longrightarrow>
   run_netting df =
     Inr (map (entity_row (valid_trades (rows df) scores)) (entity_keys (valid_trades (rows df) scores)),
          float_mult (float_div
            (sum_list (map Total_Value (valid_trades (rows df) scores)) -
             sum_list (map (\<lambda>r. \<bar>Net_Position r\<bar>)
               (map (entity_row (valid_trades (rows df) scores))
                 (entity_keys (valid_trades (rows df) scores)))) / 2)
            (sum_list (map Total_Value (valid_trades (rows df) scores)))) 100,
          sum_list (map Total_Value (valid_trades (rows df) scores)),
          sum_list (map (\<lambda>r. \<bar>Net_Position r\<bar>)
               (map (entity_row (valid_trades (rows df) scores))
                 (entity_keys (valid_trades (rows df) scores)))) / 2)"
  unfolding run_netting_def Let_def net_rows_eq by simp

lemma sum_to_pay:
  "sum_list (map To_Pay (map (entity_row v) (entity_keys v))) = sum_list (map Total_Value v)"
proof -
  have "sum_list (map To_Pay (map (entity_row v) (entity_keys v)))
        = (\<Sum>k\<leftarrow>entity_keys v. sum_list (map Total_Value (filter (\<lambda>t. Buyer t = k) v)))"
    by (simp add: comp_def entity_row_def total_where_def)
  also have "\<dots> = sum_list (map Total_Value v)"
    by (rule sum_list_groups) (auto simp: distinct_entity_keys set_entity_keys)
  finally show ?thesis .
qed

lemma sum_to_receive:
  "sum_list (map To_Receive (map (entity_row v) (entity_keys v))) = sum_list (map Total_Value v)"
proof -
  have "sum_list (map To_Receive (map (entity_row v) (entity_keys v)))
        = (\<Sum>k\<leftarrow>entity_keys v. sum_list (map Total_Value (filter (\<lambda>t. Seller t = k) v)))"
    by (simp add: comp_def entity_row_def total_where_def)
  also have "\<dots> = sum_list (map Total_Value v)"
    by (rule sum_list_groups) (auto simp: distinct_entity_keys set_entity_keys)
  finally show ?thesis .
qed

lemma total_where_nonneg:
  "\<forall>t\<in>set v. 0 \<le> Total_Value t \<Longrightarrow> 0 \<le> total_where key k v"
  unfolding total_where_def by (rule sum_list_nonneg) auto

lemma total_where_absent: "k \<notin> key ` set v \<Longrightarrow> total_where key k v = 0"
  by (simp add: total_where_def filter_key_empty)

lemma sum_abs_net:
  assumes "\<forall>t\<in>set v. 0 \<le> Total_Value t"
  shows "sum_list (map (\<lambda>r. \<bar>Net_Position r\<bar>) (map (entity_row v) (entity_keys v)))
           \<le> 2 * sum_list (map Total_Value v)"
proof -
  have "sum_list (map (\<lambda>r. \<bar>Net_Position r\<bar>) (map (entity_row v) (entity_keys v)))
        \<le> sum_list (map (\<lambda>r. To_Receive r + To_Pay r) (map (entity_row v) (entity_keys v)))"
  proof (rule sum_list_mono)
    fix r assume "r \<in> set (map (entity_row v) (entity_keys v))"
    then obtain k where r: "r = entity_row v k" by auto
    have "0 \<le> total_where Buyer k v" "0 \<le> total_where Seller k v"
      using assms by (simp_all add: total_where_nonneg)
    then show "\<bar>Net_Position r\<bar> \<le> To_Receive r + To_Pay r"
      by (simp add: r entity_row_def)
  qed
  also have "\<dots> = sum_list (map To_Receive (map (entity_row v) (entity_keys v)))
                  + sum_list (map To_Pay (map (entity_row v) (entity_keys v)))"
    by (simp add: sum_list_addf comp_def)
  also have "\<dots> = 2 * sum_list (map Total_Value v)"
    by (simp only: sum_to_pay sum_to_receive)
  finally show ?thesis .
qed

lemma sum_abs_net_nonneg:
  "0 \<le> sum_list (map (\<lambda>r. \<bar>Net_Position r\<bar>) (map (entity_row v) ks))"
  by (rule sum_list_nonneg) auto

section \<open>Properties of the settlement report\<close>

text \<open>
  C4 (status). In the report that \<open>run_netting\<close> returns, every position has the
  status \<open>PAY TO DTCC\<close> exactly when its net position (\<open>To_Receive - To_Pay\<close>) is
  negative and \<open>RECEIVE FROM DTCC\<close> otherwise; a net position of exactly zero is given
  the receive status.
\<close>

theorem status_rule:
  assumes "Anomaly_Score df = Some scores"
  shows "\<exists>net_df savings gross_volume net_volume.
           run_netting df = Inr (net_df, savings, gross_volume, net_volume) \<and>
           (\<forall>r\<in>set net_df.
              Net_Position r = To_Receive r - To_Pay r \<and>
              (Status r = ''PAY TO DTCC'' \<longleftrightarrow> Net_Position r < 0) \<and>
              (Status r = ''RECEIVE FROM DTCC'' \<longleftrightarrow> \<not> Net_Position r < 0) \<and>
              (Net_Position r = 0 \<longrightarrow> Status r = ''RECEIVE FROM DTCC''))"
proof -
  let ?v = "valid_trades (rows df) scores"
  have "\<forall>r\<in>set (map (entity_row ?v) (entity_keys ?v)).
              Net_Position r = To_Receive r - To_Pay r \<and>
              (Status r = ''PAY TO DTCC'' \<longleftrightarrow> Net_Position r < 0) \<and>
              (Status r = ''RECEIVE FROM DTCC'' \<longleftrightarrow> \<not> Net_Position r < 0) \<and>
              (Net_Position r = 0 \<longrightarrow> Status r = ''RECEIVE FROM DTCC'')"
    by (simp add: entity_row_def)
  with run_netting_labelled [OF assms] show ?thesis by blast
qed

theorem status_rule_witness:
  "Anomaly_Score round_trip_ledger = Some [1, 1] \<and>
   (\<exists>net_df savings gross_volume net_volume.
      run_netting round_trip_ledger = Inr (net_df, savings, gross_volume, net_volume) \<and>
      (\<exists>r\<in>set net_df. Net_Position r = 0) \<and>
      (\<forall>r\<in>set net_df.
         Net_Position r = To_Receive r - To_Pay r \<and>
         (Status r = ''PAY TO DTCC'' \<longleftrightarrow> Net_Position r < 0) \<and>
         (Status r = ''RECEIVE FROM DTCC'' \<longleftrightarrow> \<not> Net_Position r < 0) \<and>
         (Net_Position r = 0 \<longrightarrow> Status r = ''RECEIVE FROM DTCC'')))"
proof -
  have h: "Anomaly_Score round_trip_ledger = Some [1, 1]"
    by (simp add: round_trip_ledger_def)
  from status_rule [OF h] obtain net_df savings gross_volume net_volume where
    run: "run_netting round_trip_ledger = Inr (net_df, savings, gross_volume, net_volume)" and
    st: "\<forall>r\<in>set net_df.
         Net_Position r = To_Receive r - To_Pay r \<and>
         (Status r = ''PAY TO DTCC'' \<longleftrightarrow> Net_Position r < 0) \<and>
         (Status r = ''RECEIVE FROM DTCC'' \<longleftrightarrow> \<not> Net_Position r < 0) \<and>
         (Net_Position r = 0 \<longrightarrow> Status r = ''RECEIVE FROM DTCC'')"
    by blast
  from run have "net_df = [entity_row [example_trade ''Citi'' ''JPMorgan'' 100, example_trade ''JPMorgan'' ''Citi'' 100] ''Citi'',
                          entity_row [example_trade ''Citi'' ''JPMorgan'' 100, example_trade ''JPMorgan'' ''Citi'' 100] ''JPMorgan'']"
    by (simp add: run_netting_labelled [OF h])
       (simp add: round_trip_ledger_def valid_trades_def entity_keys_def example_trade_def)
  then have "\<exists>r\<in>set net_df. Net_Position r = 0"
    by (simp add: entity_row_def total_where_def example_trade_def)
  with h run st show ?thesis by blast
qed

text \<open>
  C6 (entities). In the report that \<open>run_netting\<close> returns, the entities are exactly
  the buyers and the sellers of the normal trades, each of them once; an entity that is
  no seller of a normal trade has \<open>To_Receive = 0\<close>, and one that is no buyer has
  \<open>To_Pay = 0\<close>.
\<close>

theorem report_entities:
  assumes "Anomaly_Score df = Some scores"
  shows "\<exists>net_df savings gross_volume net_volume.
           run_netting df = Inr (net_df, savings, gross_volume, net_volume) \<and>
           set (map Entity net_df) =
             Buyer ` set (valid_trades (rows df) scores) \<union>
             Seller ` set (valid_trades (rows df) scores) \<and>
           distinct (map Entity net_df) \<and>
           (\<forall>r\<in>set net_df.
              (Entity r \<notin> Seller ` set (valid_trades (rows df) scores) \<longrightarrow> To_Receive r = 0) \<and>
              (Entity r \<notin> Buyer ` set (valid_trades (rows df) scores) \<longrightarrow> To_Pay r = 0))"
proof -
  let ?v = "valid_trades (rows df) scores"
  let ?nd = "map (entity_row ?v) (entity_keys ?v)"
  have a: "set (map Entity ?nd) = Buyer ` set ?v \<union> Seller ` set ?v"
    by (simp only: entity_of_rows set_entity_keys)
  have b: "distinct (map Entity ?nd)"
    by (simp only: entity_of_rows distinct_entity_keys)
  have c: "\<forall>r\<in>set ?nd.
              (Entity r \<notin> Seller ` set ?v \<longrightarrow> To_Receive r = 0) \<and>
              (Entity r \<notin> Buyer ` set ?v \<longrightarrow> To_Pay r = 0)"
    by (auto simp: entity_row_def total_where_absent)
  from run_netting_labelled [OF assms] a b c show ?thesis by blast
qed

theorem report_entities_witness:
  "Anomaly_Score mixed_ledger = Some [1, - 1] \<and>
   Buyer ` set (valid_trades (rows mixed_ledger) [1, - 1]) = {''Citi''} \<and>
   Seller ` set (valid_trades (rows mixed_ledger) [1, - 1]) = {''JPMorgan''} \<and>
   (\<exists>net_df savings gross_volume net_volume.
      run_netting mixed_ledger = Inr (net_df, savings, gross_volume, net_volume) \<and>
      set (map Entity net_df) = {''Citi'', ''JPMorgan''} \<and>
      distinct (map Entity net_df) \<and>
      (\<forall>r\<in>set net_df.
         (Entity r \<notin> {''JPMorgan''} \<longrightarrow> To_Receive r = 0) \<and>
         (Entity r \<notin> {''Citi''} \<longrightarrow> To_Pay r = 0)))"
proof -
  have h: "Anomaly_Score mixed_ledger = Some [1, - 1]"
    by (simp add: mixed_ledger_def)
  have b: "Buyer ` set (valid_trades (rows mixed_ledger) [1, - 1]) = {''Citi''}"
    by (simp add: mixed_ledger_def valid_trades_def example_trade_def)
  have s: "Seller ` set (valid_trades (rows mixed_ledger) [1, - 1]) = {''JPMorgan''}"
    by (simp add: mixed_ledger_def valid_trades_def example_trade_def)
  from report_entities [OF h] have
    "\<exists>net_df savings gross_volume net_volume.
      run_netting mixed_ledger = Inr (net_df, savings, gross_volume, net_volume) \<and>
      set (map Entity net_df) = {''Citi''} \<union> {''JPMorgan''} \<and>
      distinct (map Entity net_df) \<and>
      (\<forall>r\<in>set net_df.
         (Entity r \<notin> {''JPMorgan''} \<longrightarrow> To_Receive r = 0) \<and>
         (Entity r \<notin> {''Citi''} \<longrightarrow> To_Pay r = 0))"
    by (simp only: b s)
  then have
    "\<exists>net_df savings gross_volume net_volume.
      run_netting mixed_ledger = Inr (net_df, savings, gross_volume, net_volume) \<and>
      set (map Entity net_df) = {''Citi'', ''JPMorgan''} \<and>
      distinct (map Entity net_df) \<and>
      (\<forall>r\<in>set net_df.
         (Entity r \<notin> {''JPMorgan''} \<longrightarrow> To_Receive r = 0) \<and>
         (Entity r \<notin> {''Citi''} \<longrightarrow> To_Pay r = 0))"
    by (simp only: insert_is_Un [symmetric])
  with h b s show ?thesis by blast
qed

text \<open>
  C2 (no normal trade). As claimed, a ledger without a normal trade would make
  \<open>run_netting\<close> fail. The method has no such check: on the ledger whose only trade is
  anomalous it returns a report.
\<close>

theorem no_settlable_trades_counterexample:
  "run_netting anomalous_ledger = Inr ([], NaN, 0, 0)"
  by (simp add: run_netting_def anomalous_ledger_def valid_trades_def groupby_sum_def
      merge_outer_def float_div_def float_mult_def)

text \<open>
  C2 as amended: for every ledger that carries the score column and has no normal
  trade, \<open>run_netting\<close> raises nothing and returns the report with no position, gross
  and net volume 0 and the savings \<open>nan\<close> (the float quotient of zero by zero).
\<close>

theorem no_normal_trades:
  assumes "Anomaly_Score df = Some scores"
    and "valid_trades (rows df) scores = []"
  shows "run_netting df = Inr ([], NaN, 0, 0)"
  using assms
  by (simp add: run_netting_def Let_def groupby_sum_def merge_outer_def float_div_def
      float_mult_def)

theorem no_normal_trades_witness:
  "Anomaly_Score anomalous_ledger = Some [- 1] \<and>
   valid_trades (rows anomalous_ledger) [- 1] = [] \<and>
   run_netting anomalous_ledger = Inr ([], NaN, 0, 0)"
proof -
  have h: "Anomaly_Score anomalous_ledger = Some [- 1]"
    by (simp add: anomalous_ledger_def)
  have e: "valid_trades (rows anomalous_ledger) [- 1] = []"
    by (simp add: anomalous_ledger_def valid_trades_def)
  from h e no_normal_trades [OF h e] show ?thesis by blast
qed

text \<open>
  C3 (zero gross volume). As claimed, a gross volume of zero would make \<open>run_netting\<close>
  fail before the division. The method divides: on the ledger whose only normal trade
  has the value zero it returns a report whose savings are \<open>nan\<close>.
\<close>

theorem degenerate_volume_counterexample:
  "run_netting zero_value_ledger =
     Inr ([\<lparr>Entity = ''Citi'', To_Pay = 0, To_Receive = 0, Net_Position = 0,
             Status = ''RECEIVE FROM DTCC''\<rparr>,
           \<lparr>Entity = ''JPMorgan'', To_Pay = 0, To_Receive = 0, Net_Position = 0,
             Status = ''RECEIVE FROM DTCC''\<rparr>],
          NaN, 0, 0)"
  by (simp add: run_netting_def zero_value_ledger_def example_trade_def valid_trades_def
      groupby_sum_def merge_outer_def net_position_row_def fillna_def float_div_def
      float_mult_def)

text \<open>
  C3 as amended: for every ledger that carries the score column and whose normal trades
  have the gross volume zero, \<open>run_netting\<close> raises nothing; it performs the division and
  returns a report whose savings are not a number: \<open>nan\<close> when the net volume is zero
  as well, which is always so when no normal trade has a negative value, and minus
  infinity otherwise.
\<close>

theorem zero_gross_volume:
  assumes "Anomaly_Score df = Some scores"
    and "sum_list (map Total_Value (valid_trades (rows df) scores)) = 0"
  shows "\<exists>net_df savings net_volume.
           run_netting df = Inr (net_df, savings, 0, net_volume) \<and>
           0 \<le> net_volume \<and>
           savings = (if net_volume = 0 then NaN else NegInf) \<and>
           ((\<forall>t\<in>set (valid_trades (rows df) scores). 0 \<le> Total_Value t) \<longrightarrow> savings = NaN)"
proof -
  let ?v = "valid_trades (rows df) scores"
  let ?nd = "map (entity_row ?v) (entity_keys ?v)"
  let ?n = "sum_list (map (\<lambda>r. \<bar>Net_Position r\<bar>) ?nd) / 2"
  have n0: "0 \<le> sum_list (map (\<lambda>r. \<bar>Net_Position r\<bar>) ?nd)"
    by (rule sum_abs_net_nonneg)
  then have n: "0 \<le> ?n" by linarith
  have run: "run_netting df = Inr (?nd, float_mult (float_div (0 - ?n) 0) 100, 0, ?n)"
    using run_netting_labelled [OF assms(1)] by (simp only: assms(2))
  have sv: "float_mult (float_div (0 - ?n) 0) 100 = (if ?n = 0 then NaN else NegInf)"
    using n by (auto simp: float_div_def float_mult_def)
  have nn: "(\<forall>t\<in>set ?v. 0 \<le> Total_Value t) \<longrightarrow> ?n = 0"
  proof
    assume "\<forall>t\<in>set ?v. 0 \<le> Total_Value t"
    from sum_abs_net [OF this]
    have "sum_list (map (\<lambda>r. \<bar>Net_Position r\<bar>) ?nd) \<le> 0"
      by (simp only: assms(2) mult_zero_right)
    with n0 show "?n = 0" by linarith
  qed
  from run n sv nn show ?thesis by (metis (no_types, lifting))
qed

theorem zero_gross_volume_witness:
  "Anomaly_Score zero_value_ledger = Some [1] \<and>
   valid_trades (rows zero_value_ledger) [1] = [example_trade ''Citi'' ''JPMorgan'' 0] \<and>
   sum_list (map Total_Value (valid_trades (rows zero_value_ledger) [1])) = 0 \<and>
   0 \<le> Total_Value (example_trade ''Citi'' ''JPMorgan'' 0) \<and>
   (\<exists>net_df savings net_volume.
      run_netting zero_value_ledger = Inr (net_df, savings, 0, net_volume) \<and>
      0 \<le> net_volume \<and>
      savings = (if net_volume = 0 then NaN else NegInf) \<and>
      savings = NaN)"
proof -
  have h: "Anomaly_Score zero_value_ledger = Some [1]"
    by (simp add: zero_value_ledger_def)
  have v: "valid_trades (rows zero_value_ledger) [1] = [example_trade ''Citi'' ''JPMorgan'' 0]"
    by (simp add: zero_value_ledger_def valid_trades_def)
  have z: "sum_list (map Total_Value (valid_trades (rows zero_value_ledger) [1])) = 0"
    by (simp add: v example_trade_def)
  have p: "0 \<le> Total_Value (example_trade ''Citi'' ''JPMorgan'' 0)"
    by (simp add: example_trade_def)
  have nn: "\<forall>t\<in>set (valid_trades (rows zero_value_ledger) [1]). 0 \<le> Total_Value t"
    using p by (simp add: v)
  from h v z p nn zero_gross_volume [OF h z] show ?thesis by blast
qed




section \<open>Properties of the anomaly detector\<close>

text \<open>
  C8 (no side effects). As claimed, \<open>detect_anomalies\<close> would leave its input ledger
  as it was. It does not: the frame that is passed in has no score column before the
  call and has one afterwards.
\<close>

theorem detect_pure_counterexample:
  "frames (snd (detect_anomalies label_all_normal 0
             \<lparr>risk_threshold = 1 / 20, frames = unscored_frames\<rparr>)) 0 \<noteq> unscored_frames 0"
  by (simp add: detect_anomalies_def label_all_normal_def unscored_frames_def)

text \<open>
  C8 as amended: \<open>detect_anomalies\<close> writes the labels into the column
  \<open>Anomaly_Score\<close> of the ledger it is given and returns that same ledger. Nothing
  else changes: the rows of the ledger, every other frame and \<open>risk_threshold\<close> are as
  before, and a failing call changes nothing at all. The labels are what the outlier
  model gives for \<open>risk_threshold\<close>, the seed 42 and the columns \<open>Quantity\<close> and
  \<open>Total_Value\<close> of the ledger.
\<close>

theorem detect_writes_score_column_only:
  assumes "detect_anomalies fit_predict df s = (res, s')"
  shows "risk_threshold s' = risk_threshold s \<and>
         (\<forall>r. r \<noteq> df \<longrightarrow> frames s' r = frames s r) \<and>
         rows (frames s' df) = rows (frames s df) \<and>
         (case res of
            Inl e \<Rightarrow> s' = s
          | Inr r \<Rightarrow>
              r = df \<and>
              (\<exists>labels.
                 fit_predict (risk_threshold s) 42
                   (map (\<lambda>t. (Quantity t, Total_Value t)) (rows (frames s df))) = Inr labels \<and>
                 length labels = length (rows (frames s df)) \<and>
                 Anomaly_Score (frames s' df) = Some labels))"
  using assms
  by (auto simp: detect_anomalies_def split: sum.splits if_splits)

theorem detect_writes_score_column_only_witness:
  "detect_anomalies label_all_normal 0 \<lparr>risk_threshold = 1 / 20, frames = unscored_frames\<rparr>
     = (Inr 0, \<lparr>risk_threshold = 1 / 20,
                frames = unscored_frames (0 := (unscored_frames 0)\<lparr>Anomaly_Score := Some [1]\<rparr>)\<rparr>) \<and>
   Anomaly_Score (unscored_frames 0) = None \<and>
   frames \<lparr>risk_threshold = 1 / 20,
           frames = unscored_frames (0 := (unscored_frames 0)\<lparr>Anomaly_Score := Some [1]\<rparr>)\<rparr> 1
     = unscored_frames 1 \<and>
   rows ((unscored_frames (0 := (unscored_frames 0)\<lparr>Anomaly_Score := Some [1]\<rparr>)) 0)
     = rows (unscored_frames 0) \<and>
   Anomaly_Score ((unscored_frames (0 := (unscored_frames 0)\<lparr>Anomaly_Score := Some [1]\<rparr>)) 0)
     = Some [1]"
proof -
  let ?s = "\<lparr>risk_threshold = 1 / 20, frames = unscored_frames\<rparr>"
  let ?s' = "\<lparr>risk_threshold = 1 / 20,
              frames = unscored_frames (0 := (unscored_frames 0)\<lparr>Anomaly_Score := Some [1]\<rparr>)\<rparr>"
  have run: "detect_anomalies label_all_normal 0 ?s = (Inr 0, ?s')"
    by (simp add: detect_anomalies_def label_all_normal_def unscored_frames_def)
  have "Anomaly_Score (unscored_frames 0) = None"
    by (simp add: unscored_frames_def)
  with run detect_writes_score_column_only [OF run] show ?thesis
    by (simp add: unscored_frames_def)
qed




end
